theory Spec2Isabelle
  imports Complex_Main "HOL-Library.Sublist"
begin

unbundle bit_operations_syntax

section \<open>Earth Engine client objects\<close>

text \<open>
  The script \<^verbatim>\<open>scripts/01_gee_export_aod.py\<close> computes nothing itself: every call on an
  \<^verbatim>\<open>ee\<close> object builds a node of an expression that the platform evaluates after
  the task is started. The expressions are modelled as the terms the client builds, one
  constructor per method the script calls. A Python number passed to an image method
  (\<^verbatim>\<open>bitwiseAnd(7)\<close>, \<^verbatim>\<open>multiply(scale_factor)\<close>) is kept as the number; Python floats
  are idealised as reals.
\<close>

datatype ee_filter = Filter_eq string string

datatype ee_featurecollection =
    FeatureCollection string
  | FeatureCollection_filter ee_featurecollection ee_filter

datatype ee_geometry = FeatureCollection_geometry ee_featurecollection

datatype ee_image =
    Element
  | Image_select ee_image string
  | Image_bitwiseAnd ee_image int
  | Image_rightShift ee_image nat
  | Image_eq ee_image int
  | Image_And ee_image ee_image
  | Image_updateMask ee_image ee_image
  | Image_multiply ee_image real
  | Image_clip ee_image ee_geometry
  | ImageCollection_mean ee_collection
and ee_collection =
    ImageCollection string
  | ImageCollection_filterDate ee_collection string string
  | ImageCollection_filterBounds ee_collection ee_geometry
  | ImageCollection_map ee_collection ee_image
  | ImageCollection_select ee_collection string

text \<open>
  \<^verbatim>\<open>collection.map(f)\<close>: the client calls the Python function \<open>f\<close> once, on a
  placeholder for the element, and records the expression it returns as the body that the
  platform evaluates for every element of the collection. \<^const>\<open>Element\<close> is the placeholder.
\<close>

definition map_collection :: "ee_collection \<Rightarrow> (ee_image \<Rightarrow> ee_image) \<Rightarrow> ee_collection" where
  "map_collection c f = ImageCollection_map c (f Element)"

text \<open>The keyword arguments of \<^verbatim>\<open>ee.batch.Export.image.toDrive\<close>.\<close>

record export_task =
  image :: ee_image
  description :: string
  folder :: string
  fileNamePrefix :: string
  scale :: int
  crs :: string
  maxPixels :: real

section \<open>Formatting an integer in an f-string\<close>

text \<open>
  \<^verbatim>\<open>f'{year}'\<close> is \<^verbatim>\<open>str(year)\<close>: the decimal digits, most significant first, after a
  minus sign when the number is negative.
\<close>

definition digit_char :: "nat \<Rightarrow> char" where
  "digit_char d = char_of (48 + d)"

fun str_nat :: "nat \<Rightarrow> string" where
  "str_nat n = (if n < 10 then [digit_char n] else str_nat (n div 10) @ [digit_char (n mod 10)])"

declare str_nat.simps [simp del]

definition str_int :: "int \<Rightarrow> string" where
  "str_int i = (if i < 0 then CHR ''-'' # str_nat (nat (- i)) else str_nat (nat i))"

section \<open>The script\<close>

subsection \<open>What the script cannot decide\<close>

text \<open>
  The calls that reach the platform raise or return, and the environment says which:
  \<open>Initialize_raises env n\<close> for the call of \<^verbatim>\<open>ee.Initialize()\<close> numbered \<open>n\<close> (from 0),
  \<open>Authenticate_raises env\<close> for the interactive \<^verbatim>\<open>ee.Authenticate()\<close> of line 19, and
  \<open>start_raises env year\<close> for the \<^verbatim>\<open>task.start()\<close> of line 81 in the iteration of a year.
  Only the first \<^verbatim>\<open>ee.Initialize()\<close> stands in a \<^verbatim>\<open>try\<close>; an exception of any other call
  ends the run. The clock decides the text that \<^verbatim>\<open>{end_time - start_time:.2f}\<close> renders
  in the iteration of a year: \<open>elapsed env year\<close>. Building an expression, building a task
  and printing happen in the client and are modelled as returning.
\<close>

record env =
  Initialize_raises :: "nat \<Rightarrow> bool"
  Authenticate_raises :: bool
  start_raises :: "int \<Rightarrow> bool"
  elapsed :: "int \<Rightarrow> string"

datatype exn = EEException

text \<open>
  An event is a line printed, a call of the session (recorded whether it returns or
  raises), a task the platform accepted, or a \<^verbatim>\<open>task.start()\<close> that raised.
\<close>

datatype event =
    Print string
  | Call_Initialize
  | Call_Authenticate
  | Task_start export_task
  | Task_start_raised export_task

text \<open>The state of a run is the sequence of its effects so far, oldest first.\<close>

type_synonym trace = "event list"

definition print :: "string \<Rightarrow> trace \<Rightarrow> trace" where
  "print line tr = tr @ [Print line]"

definition ee_Initialize :: "env \<Rightarrow> trace \<Rightarrow> (exn + unit) \<times> trace" where
  "ee_Initialize env tr =
     (if Initialize_raises env (count_list tr Call_Initialize) then Inl EEException else Inr (),
      tr @ [Call_Initialize])"

definition ee_Authenticate :: "env \<Rightarrow> trace \<Rightarrow> (exn + unit) \<times> trace" where
  "ee_Authenticate env tr =
     (if Authenticate_raises env then Inl EEException else Inr (), tr @ [Call_Authenticate])"

definition task_start :: "env \<Rightarrow> int \<Rightarrow> export_task \<Rightarrow> trace \<Rightarrow> (exn + unit) \<times> trace" where
  "task_start env year task tr =
     (if start_raises env year then (Inl EEException, tr @ [Task_start_raised task])
      else (Inr (), tr @ [Task_start task]))"

subsection \<open>Study area and parameters (lines 22 to 27)\<close>

definition usa :: ee_geometry where
  "usa = FeatureCollection_geometry
           (FeatureCollection_filter (FeatureCollection ''USDOS/LSIB_SIMPLE/2017'')
              (Filter_eq ''country_na'' ''United States''))"

definition collection_id :: string where
  "collection_id = ''MODIS/061/MCD19A2_GRANULES''"

definition aod_band :: string where
  "aod_band = ''Optical_Depth_055''"

definition scale_factor :: real where
  "scale_factor = 1 / 1000"

definition export_scale :: int where
  "export_scale = 1000"

subsection \<open>Quality assurance mask (lines 30 to 46)\<close>

definition maskAOD :: "ee_image \<Rightarrow> ee_image" where
  "maskAOD img =
     (let qa = Image_select img ''AOD_QA'';
          cloudMask = Image_eq (Image_bitwiseAnd qa 7) 1;
          landMask = Image_eq (Image_bitwiseAnd (Image_rightShift qa 3) 3) 0;
          qualityMask = Image_eq (Image_bitwiseAnd (Image_rightShift qa 8) 15) 0;
          finalMask = Image_And (Image_And cloudMask landMask) qualityMask
      in Image_updateMask img finalMask)"

text \<open>The local \<^verbatim>\<open>finalMask\<close> of \<^verbatim>\<open>maskAOD\<close>: the same lines, up to the \<^verbatim>\<open>return\<close>.\<close>

definition maskAOD_finalMask :: "ee_image \<Rightarrow> ee_image" where
  "maskAOD_finalMask img =
     (let qa = Image_select img ''AOD_QA'';
          cloudMask = Image_eq (Image_bitwiseAnd qa 7) 1;
          landMask = Image_eq (Image_bitwiseAnd (Image_rightShift qa 3) 3) 0;
          qualityMask = Image_eq (Image_bitwiseAnd (Image_rightShift qa 8) 15) 0;
          finalMask = Image_And (Image_And cloudMask landMask) qualityMask
      in finalMask)"

subsection \<open>The year loop (lines 49 to 84)\<close>

definition start_year :: int where
  "start_year = 2015"

definition end_year :: int where
  "end_year = 2024"

definition start_date :: "int \<Rightarrow> string" where
  "start_date year = str_int year @ ''-01-01''"

definition end_date :: "int \<Rightarrow> string" where
  "end_date year = str_int year @ ''-12-31''"

definition annual_mean_aod :: "ee_geometry \<Rightarrow> int \<Rightarrow> ee_image" where
  "annual_mean_aod boundary year =
     Image_multiply
       (ImageCollection_mean
          (ImageCollection_select
             (map_collection
                (ImageCollection_filterBounds
                   (ImageCollection_filterDate (ImageCollection collection_id)
                      (start_date year) (end_date year))
                   boundary)
                maskAOD)
             aod_band))
       scale_factor"

definition toDrive :: "ee_geometry \<Rightarrow> int \<Rightarrow> export_task" where
  "toDrive boundary year =
     \<lparr> image = Image_clip (annual_mean_aod boundary year) boundary,
       description = ''Annual_Mean_AOD_'' @ str_int year @ ''_USA'',
       folder = ''GEE_Exports'',
       fileNamePrefix = ''AOD_'' @ str_int year @ ''_USA'',
       scale = export_scale,
       crs = ''EPSG:4326'',
       maxPixels = 10 ^ 13 \<rparr>"

text \<open>One iteration (lines 53 to 84). When \<^verbatim>\<open>task.start()\<close> raises, the iteration ends
  there, with the exception.\<close>

definition loop_body :: "env \<Rightarrow> ee_geometry \<Rightarrow> int \<Rightarrow> trace \<Rightarrow> (exn + unit) \<times> trace" where
  "loop_body env boundary year tr =
     (let tr1 = print (''Submitting export task for year: '' @ str_int year @ ''...'') tr;
          task = toDrive boundary year;
          (r, tr2) = task_start env year task tr1
      in case r of
           Inl e \<Rightarrow> (Inl e, tr2)
         | Inr _ \<Rightarrow>
             (Inr (), print (''  - Task for year '' @ str_int year @ '' submitted in ''
                             @ elapsed env year @ '' seconds.'') tr2))"

text \<open>Python's \<^verbatim>\<open>range(start, stop)\<close> on integers.\<close>

definition py_range :: "int \<Rightarrow> int \<Rightarrow> int list" where
  "py_range start stop = [start..stop - 1]"

text \<open>The loop over a list of years: an exception of an iteration ends the loop.\<close>

fun for_year :: "env \<Rightarrow> ee_geometry \<Rightarrow> int list \<Rightarrow> trace \<Rightarrow> (exn + unit) \<times> trace" where
  "for_year env boundary [] tr = (Inr (), tr)"
| "for_year env boundary (year # years) tr =
     (case loop_body env boundary year tr of
        (Inl e, tr') \<Rightarrow> (Inl e, tr')
      | (Inr _, tr') \<Rightarrow> for_year env boundary years tr')"

text \<open>Line 52 with its body: \<^verbatim>\<open>for year in range(start_year, end_year + 1)\<close>.\<close>

definition year_loop ::
  "env \<Rightarrow> ee_geometry \<Rightarrow> int \<Rightarrow> int \<Rightarrow> trace \<Rightarrow> (exn + unit) \<times> trace" where
  "year_loop env boundary first_year last_year tr =
     for_year env boundary (py_range first_year (last_year + 1)) tr"

subsection \<open>The whole script\<close>

text \<open>Lines 22 to 88: everything after the session is initialised.\<close>

definition export_years :: "env \<Rightarrow> int \<Rightarrow> int \<Rightarrow> trace \<Rightarrow> (exn + unit) \<times> trace" where
  "export_years env first_year last_year tr =
     (let boundary = usa;
          (r, tr1) = year_loop env boundary first_year last_year tr
      in case r of
           Inl e \<Rightarrow> (Inl e, tr1)
         | Inr _ \<Rightarrow>
             (let tr2 = print (CHR 0x0A # ''--- All export tasks have been submitted. ---'') tr1;
                  tr3 = print ''Please go to the Google Earth Engine Code Editor website (code.earthengine.google.com)'' tr2
              in (Inr (),
                  print ''and click 'RUN' on the tasks in the 'Tasks' tab on the right-hand side.'' tr3)))"

text \<open>
  Lines 13 to 88, with the two years of line 49 and 50 as parameters. The result is how
  the run ends (\<open>Inl\<close>: an exception nobody caught) and the effects it had.
\<close>

definition script :: "env \<Rightarrow> int \<Rightarrow> int \<Rightarrow> (exn + unit) \<times> trace" where
  "script env first_year last_year =
     (let tr0 = print ''--- Script Start: Exporting yearly AOD data with verified logic ---'' [];
          (r1, tr1) = ee_Initialize env tr0
      in case r1 of
           Inr _ \<Rightarrow> export_years env first_year last_year tr1
         | Inl e \<Rightarrow>
             (let (ra, tr2) = ee_Authenticate env tr1
              in case ra of
                   Inl e' \<Rightarrow> (Inl e', tr2)
                 | Inr _ \<Rightarrow>
                     (let (r2, tr3) = ee_Initialize env tr2
                      in case r2 of
                           Inl e'' \<Rightarrow> (Inl e'', tr3)
                         | Inr _ \<Rightarrow> export_years env first_year last_year tr3)))"

definition main :: "env \<Rightarrow> (exn + unit) \<times> trace" where
  "main env = script env start_year end_year"

text \<open>The tasks a run started and the lines it printed, in order.\<close>

fun started :: "trace \<Rightarrow> export_task list" where
  "started [] = []"
| "started (Task_start t # tr) = t # started tr"
| "started (_ # tr) = started tr"

fun printed :: "trace \<Rightarrow> string list" where
  "printed [] = []"
| "printed (Print l # tr) = l # printed tr"
| "printed (_ # tr) = printed tr"

fun session_calls :: "trace \<Rightarrow> event list" where
  "session_calls [] = []"
| "session_calls (Call_Initialize # tr) = Call_Initialize # session_calls tr"
| "session_calls (Call_Authenticate # tr) = Call_Authenticate # session_calls tr"
| "session_calls (_ # tr) = session_calls tr"

text \<open>
  Five environments: a cached session that initialises at once; a session that is absent
  until the user has authenticated; a platform that refuses every initialisation; an
  authentication that raises (no cached session, and the interactive flow fails); and a
  cached session on which the submission of the year 2021 raises.
\<close>

definition session_cached :: env where
  "session_cached =
     \<lparr> Initialize_raises = (\<lambda>n. False), Authenticate_raises = False,
       start_raises = (\<lambda>year. False), elapsed = (\<lambda>year. ''0.52'') \<rparr>"

definition session_absent :: env where
  "session_absent =
     \<lparr> Initialize_raises = (\<lambda>n. n = 0), Authenticate_raises = False,
       start_raises = (\<lambda>year. False), elapsed = (\<lambda>year. ''0.52'') \<rparr>"

definition session_refused :: env where
  "session_refused =
     \<lparr> Initialize_raises = (\<lambda>n. True), Authenticate_raises = False,
       start_raises = (\<lambda>year. False), elapsed = (\<lambda>year. ''0.52'') \<rparr>"

definition authentication_fails :: env where
  "authentication_fails =
     \<lparr> Initialize_raises = (\<lambda>n. True), Authenticate_raises = True,
       start_raises = (\<lambda>year. False), elapsed = (\<lambda>year. ''0.52'') \<rparr>"

definition submission_fails_2021 :: env where
  "submission_fails_2021 =
     \<lparr> Initialize_raises = (\<lambda>n. False), Authenticate_raises = False,
       start_raises = (\<lambda>year. year = 2021), elapsed = (\<lambda>year. ''0.52'') \<rparr>"

section \<open>Reading an expression\<close>

text \<open>
  The method chain of an expression, in the order in which the platform applies the
  methods: the receiver's chain first, then the method with its operands.
\<close>

datatype step =
    From_collection string
  | From_element
  | Do_filterDate string string
  | Do_filterBounds ee_geometry
  | Do_map ee_image
  | Do_select string
  | Do_bitwiseAnd int
  | Do_rightShift nat
  | Do_eq int
  | Do_And ee_image
  | Do_updateMask ee_image
  | Do_mean
  | Do_multiply real
  | Do_clip ee_geometry

fun pipeline :: "ee_image \<Rightarrow> step list"
  and pipeline_c :: "ee_collection \<Rightarrow> step list" where
  "pipeline Element = [From_element]"
| "pipeline (Image_select e b) = pipeline e @ [Do_select b]"
| "pipeline (Image_bitwiseAnd e n) = pipeline e @ [Do_bitwiseAnd n]"
| "pipeline (Image_rightShift e n) = pipeline e @ [Do_rightShift n]"
| "pipeline (Image_eq e n) = pipeline e @ [Do_eq n]"
| "pipeline (Image_And e m) = pipeline e @ [Do_And m]"
| "pipeline (Image_updateMask e m) = pipeline e @ [Do_updateMask m]"
| "pipeline (Image_multiply e x) = pipeline e @ [Do_multiply x]"
| "pipeline (Image_clip e g) = pipeline e @ [Do_clip g]"
| "pipeline (ImageCollection_mean c) = pipeline_c c @ [Do_mean]"
| "pipeline_c (ImageCollection name) = [From_collection name]"
| "pipeline_c (ImageCollection_filterDate c a b) = pipeline_c c @ [Do_filterDate a b]"
| "pipeline_c (ImageCollection_filterBounds c g) = pipeline_c c @ [Do_filterBounds g]"
| "pipeline_c (ImageCollection_map c body) = pipeline_c c @ [Do_map body]"
| "pipeline_c (ImageCollection_select c b) = pipeline_c c @ [Do_select b]"

text \<open>Every factor of a \<^verbatim>\<open>multiply\<close> anywhere in an expression, operands and bodies included.\<close>

fun multiply_factors :: "ee_image \<Rightarrow> real list"
  and multiply_factors_c :: "ee_collection \<Rightarrow> real list" where
  "multiply_factors Element = []"
| "multiply_factors (Image_select e b) = multiply_factors e"
| "multiply_factors (Image_bitwiseAnd e n) = multiply_factors e"
| "multiply_factors (Image_rightShift e n) = multiply_factors e"
| "multiply_factors (Image_eq e n) = multiply_factors e"
| "multiply_factors (Image_And e m) = multiply_factors e @ multiply_factors m"
| "multiply_factors (Image_updateMask e m) = multiply_factors e @ multiply_factors m"
| "multiply_factors (Image_multiply e x) = multiply_factors e @ [x]"
| "multiply_factors (Image_clip e g) = multiply_factors e"
| "multiply_factors (ImageCollection_mean c) = multiply_factors_c c"
| "multiply_factors_c (ImageCollection name) = []"
| "multiply_factors_c (ImageCollection_filterDate c a b) = multiply_factors_c c"
| "multiply_factors_c (ImageCollection_filterBounds c g) = multiply_factors_c c"
| "multiply_factors_c (ImageCollection_map c body) = multiply_factors_c c @ multiply_factors body"
| "multiply_factors_c (ImageCollection_select c b) = multiply_factors_c c"

text \<open>Every \<^verbatim>\<open>updateMask\<close> of an expression that is not inside the operand of a \<^verbatim>\<open>mean\<close>:
  the masks applied to an aggregate rather than to the images it aggregates.\<close>

fun masks_after_mean :: "ee_image \<Rightarrow> ee_image list" where
  "masks_after_mean Element = []"
| "masks_after_mean (Image_select e b) = masks_after_mean e"
| "masks_after_mean (Image_bitwiseAnd e n) = masks_after_mean e"
| "masks_after_mean (Image_rightShift e n) = masks_after_mean e"
| "masks_after_mean (Image_eq e n) = masks_after_mean e"
| "masks_after_mean (Image_And e m) = masks_after_mean e @ masks_after_mean m"
| "masks_after_mean (Image_updateMask e m) = masks_after_mean e @ masks_after_mean m @ [m]"
| "masks_after_mean (Image_multiply e x) = masks_after_mean e"
| "masks_after_mean (Image_clip e g) = masks_after_mean e"
| "masks_after_mean (ImageCollection_mean c) = []"

text \<open>Every geometry an expression names, in the order of application.\<close>

fun geometries :: "ee_image \<Rightarrow> ee_geometry list"
  and geometries_c :: "ee_collection \<Rightarrow> ee_geometry list" where
  "geometries Element = []"
| "geometries (Image_select e b) = geometries e"
| "geometries (Image_bitwiseAnd e n) = geometries e"
| "geometries (Image_rightShift e n) = geometries e"
| "geometries (Image_eq e n) = geometries e"
| "geometries (Image_And e m) = geometries e @ geometries m"
| "geometries (Image_updateMask e m) = geometries e @ geometries m"
| "geometries (Image_multiply e x) = geometries e"
| "geometries (Image_clip e g) = geometries e @ [g]"
| "geometries (ImageCollection_mean c) = geometries_c c"
| "geometries_c (ImageCollection name) = []"
| "geometries_c (ImageCollection_filterDate c a b) = geometries_c c"
| "geometries_c (ImageCollection_filterBounds c g) = geometries_c c @ [g]"
| "geometries_c (ImageCollection_map c body) = geometries_c c @ geometries body"
| "geometries_c (ImageCollection_select c b) = geometries_c c"

section \<open>What the platform computes\<close>

text \<open>
  The meaning of the expressions is the platform's, not the script's. Two parts of it
  decide what the script's own lines mean, and are written out here from the public
  reference of the Earth Engine API: the band arithmetic of \<^verbatim>\<open>maskAOD\<close> at one pixel of
  one image, and the window of \<^verbatim>\<open>filterDate\<close>.
\<close>

subsection \<open>Band arithmetic at one pixel\<close>

text \<open>
  A pixel of an image is the list of its bands, each with its stored integer, or \<open>None\<close>
  where the band is masked there. \<^verbatim>\<open>select\<close> keeps the named band and fails when the
  image has none of that name; \<^verbatim>\<open>bitwiseAnd\<close>, \<^verbatim>\<open>rightShift\<close> and \<^verbatim>\<open>eq\<close> work band by
  band on the unmasked values (\<^verbatim>\<open>eq\<close> gives 1 or 0); \<^verbatim>\<open>And\<close> gives 1 where both values
  are non-zero; \<^verbatim>\<open>updateMask\<close> keeps a value where the mask's value is unmasked and
  non-zero. A second operand with a single band is used against every band of the first.
  The operators that are not band arithmetic on one image (\<^verbatim>\<open>mean\<close>, \<^verbatim>\<open>multiply\<close> by a
  float, \<^verbatim>\<open>clip\<close>) are outside this evaluator.
\<close>

type_synonym pixel = "(string \<times> int option) list"

datatype eval_error = Band_not_found string | Band_mismatch | Not_band_arithmetic

definition per_band :: "(int \<Rightarrow> int) \<Rightarrow> pixel \<Rightarrow> pixel" where
  "per_band f p = map (\<lambda>(b, v). (b, map_option f v)) p"

definition match_bands ::
  "(int option \<Rightarrow> int option \<Rightarrow> int option) \<Rightarrow> pixel \<Rightarrow> pixel \<Rightarrow> eval_error + pixel" where
  "match_bands f p m =
     (case m of
        [(_, w)] \<Rightarrow> Inr (map (\<lambda>(b, v). (b, f v w)) p)
      | _ \<Rightarrow>
          if length p = length m
          then Inr (map (\<lambda>((b, v), (_, w)). (b, f v w)) (zip p m))
          else Inl Band_mismatch)"

definition and_value :: "int option \<Rightarrow> int option \<Rightarrow> int option" where
  "and_value v w =
     (case (v, w) of
        (Some a, Some b) \<Rightarrow> Some (if a \<noteq> 0 \<and> b \<noteq> 0 then 1 else 0)
      | _ \<Rightarrow> None)"

definition mask_value :: "int option \<Rightarrow> int option \<Rightarrow> int option" where
  "mask_value v w = (case w of Some m \<Rightarrow> if m \<noteq> 0 then v else None | None \<Rightarrow> None)"

fun eval_pixel :: "pixel \<Rightarrow> ee_image \<Rightarrow> eval_error + pixel" where
  "eval_pixel p Element = Inr p"
| "eval_pixel p (Image_select e b) =
     (case eval_pixel p e of
        Inl err \<Rightarrow> Inl err
      | Inr r \<Rightarrow> (case map_of r b of None \<Rightarrow> Inl (Band_not_found b) | Some v \<Rightarrow> Inr [(b, v)]))"
| "eval_pixel p (Image_bitwiseAnd e n) =
     (case eval_pixel p e of Inl err \<Rightarrow> Inl err | Inr r \<Rightarrow> Inr (per_band (\<lambda>v. v AND n) r))"
| "eval_pixel p (Image_rightShift e n) =
     (case eval_pixel p e of Inl err \<Rightarrow> Inl err | Inr r \<Rightarrow> Inr (per_band (drop_bit n) r))"
| "eval_pixel p (Image_eq e n) =
     (case eval_pixel p e of
        Inl err \<Rightarrow> Inl err
      | Inr r \<Rightarrow> Inr (per_band (\<lambda>v. if v = n then 1 else 0) r))"
| "eval_pixel p (Image_And e1 e2) =
     (case eval_pixel p e1 of
        Inl err \<Rightarrow> Inl err
      | Inr r1 \<Rightarrow>
          (case eval_pixel p e2 of Inl err \<Rightarrow> Inl err | Inr r2 \<Rightarrow> match_bands and_value r1 r2))"
| "eval_pixel p (Image_updateMask e1 e2) =
     (case eval_pixel p e1 of
        Inl err \<Rightarrow> Inl err
      | Inr r1 \<Rightarrow>
          (case eval_pixel p e2 of Inl err \<Rightarrow> Inl err | Inr r2 \<Rightarrow> match_bands mask_value r1 r2))"
| "eval_pixel p (Image_multiply e x) = Inl Not_band_arithmetic"
| "eval_pixel p (Image_clip e g) = Inl Not_band_arithmetic"
| "eval_pixel p (ImageCollection_mean c) = Inl Not_band_arithmetic"

text \<open>
  The mask predicate on a quality value \<open>q\<close>: what \<^verbatim>\<open>finalMask\<close> holds at a pixel whose
  \<^verbatim>\<open>AOD_QA\<close> band stores \<open>q\<close>, read as a truth value the way \<^verbatim>\<open>updateMask\<close> reads it.
\<close>

definition mask_holds :: "int \<Rightarrow> bool" where
  "mask_holds q =
     (case eval_pixel [(''AOD_QA'', Some q)] (maskAOD_finalMask Element) of
        Inr [(_, Some m)] \<Rightarrow> m \<noteq> 0
      | _ \<Rightarrow> False)"

subsection \<open>The window of filterDate\<close>

text \<open>
  \<^verbatim>\<open>filterDate(start, end)\<close> keeps the images whose \<^verbatim>\<open>system:time_start\<close> is at or after
  \<open>start\<close> and before \<open>end\<close>: the start is inclusive and the end is exclusive. A date
  given as \<^verbatim>\<open>YYYY-MM-DD\<close> is midnight (UTC) at the beginning of that day. An instant is a
  year, a month, a day and the milliseconds since that day's midnight; instants compare
  field by field.
\<close>

type_synonym instant = "int \<times> nat \<times> nat \<times> nat"

definition digit_value :: "char \<Rightarrow> nat option" where
  "digit_value c =
     (let n = (of_char c :: nat) in if 48 \<le> n \<and> n \<le> 57 then Some (n - 48) else None)"

fun number_value :: "string \<Rightarrow> nat option" where
  "number_value [] = Some 0"
| "number_value (c # cs) =
     (case (digit_value c, number_value cs) of
        (Some d, Some n) \<Rightarrow> Some (d * 10 ^ length cs + n)
      | _ \<Rightarrow> None)"

definition parse_date :: "string \<Rightarrow> instant option" where
  "parse_date s =
     (if length s = 10 \<and> s ! 4 = CHR ''-'' \<and> s ! 7 = CHR ''-''
      then (case (number_value (take 4 s), number_value (take 2 (drop 5 s)),
                  number_value (drop 8 s)) of
              (Some y, Some m, Some d) \<Rightarrow>
                if 1 \<le> m \<and> m \<le> 12 \<and> 1 \<le> d \<and> d \<le> 31 then Some (int y, m, d, 0) else None
            | _ \<Rightarrow> None)
      else None)"

fun before :: "instant \<Rightarrow> instant \<Rightarrow> bool" where
  "before (y, m, d, t) (y', m', d', t') =
     (y < y' \<or> (y = y' \<and> (m < m' \<or> (m = m' \<and> (d < d' \<or> (d = d' \<and> t < t'))))))"

definition filterDate_keeps :: "string \<Rightarrow> string \<Rightarrow> instant \<Rightarrow> bool option" where
  "filterDate_keeps start end t =
     (case (parse_date start, parse_date end) of
        (Some a, Some b) \<Rightarrow> Some (\<not> before t a \<and> before t b)
      | _ \<Rightarrow> None)"

section \<open>Lemmas: the decimal text of an integer\<close>

lemma digit_value_digit_char: "d < 10 \<Longrightarrow> digit_value (digit_char d) = Some d"
  by (simp add: digit_value_def digit_char_def Let_def)

lemma number_value_append:
  "number_value (xs @ [c]) =
     (case (number_value xs, digit_value c) of (Some n, Some d) \<Rightarrow> Some (10 * n + d) | _ \<Rightarrow> None)"
  by (induction xs) (auto split: option.splits simp: algebra_simps)

text \<open>Reading the digits back gives the number: \<^const>\<open>str_nat\<close> loses nothing.\<close>

lemma number_value_str_nat: "number_value (str_nat n) = Some n"
proof (induction n rule: str_nat.induct)
  case (1 n)
  show ?case
  proof (cases "n < 10")
    case True
    then have "str_nat n = [digit_char n]" by (subst str_nat.simps) simp
    with True show ?thesis by (simp add: digit_value_digit_char)
  next
    case False
    then have unfold: "str_nat n = str_nat (n div 10) @ [digit_char (n mod 10)]"
      by (subst str_nat.simps) simp
    from False 1 have ih: "number_value (str_nat (n div 10)) = Some (n div 10)" by simp
    have d: "digit_value (digit_char (n mod 10)) = Some (n mod 10)"
      by (rule digit_value_digit_char) simp
    show ?thesis
      unfolding unfold number_value_append ih d by simp
  qed
qed

lemma str_nat_inj: "str_nat m = str_nat n \<Longrightarrow> m = n"
proof -
  assume eq: "str_nat m = str_nat n"
  have "Some m = number_value (str_nat m)" by (simp only: number_value_str_nat)
  also have "\<dots> = number_value (str_nat n)" by (simp only: eq)
  also have "\<dots> = Some n" by (simp only: number_value_str_nat)
  finally show "m = n" by simp
qed

lemma str_nat_nonempty: "str_nat n \<noteq> []"
  by (subst str_nat.simps) simp

lemma hd_str_nat_digit: "digit_value (hd (str_nat n)) \<noteq> None"
proof (induction n rule: str_nat.induct)
  case (1 n)
  show ?case
  proof (cases "n < 10")
    case True
    then have "str_nat n = [digit_char n]" by (subst str_nat.simps) simp
    with True show ?thesis by (simp add: digit_value_digit_char)
  next
    case False
    then have "str_nat n = str_nat (n div 10) @ [digit_char (n mod 10)]"
      by (subst str_nat.simps) simp
    then have "hd (str_nat n) = hd (str_nat (n div 10))"
      by (simp add: str_nat_nonempty)
    with False 1 show ?thesis by simp
  qed
qed

lemma hd_str_nat_not_minus: "hd (str_nat n) \<noteq> CHR ''-''"
proof
  assume "hd (str_nat n) = CHR ''-''"
  with hd_str_nat_digit[of n] show False
    by (simp add: digit_value_def Let_def)
qed

lemma str_int_inj: "str_int i = str_int j \<Longrightarrow> i = j"
proof -
  assume eq: "str_int i = str_int j"
  have neg: "hd (str_int k) = CHR ''-'' \<longleftrightarrow> k < 0" for k
    using hd_str_nat_not_minus[of "nat k"] by (simp add: str_int_def)
  from eq neg[of i] neg[of j] have same: "i < 0 \<longleftrightarrow> j < 0" by simp
  show "i = j"
  proof (cases "i < 0")
    case True
    with same eq have "str_nat (nat (- i)) = str_nat (nat (- j))" by (simp add: str_int_def)
    then have "nat (- i) = nat (- j)" by (rule str_nat_inj)
    with True same show ?thesis by simp
  next
    case False
    with same eq have "str_nat (nat i) = str_nat (nat j)" by (simp add: str_int_def)
    then have "nat i = nat j" by (rule str_nat_inj)
    with False same show ?thesis by simp
  qed
qed

lemma str_int_2015: "str_int 2015 = ''2015''"
  by code_simp

lemma str_int_2020: "str_int 2020 = ''2020''"
  by code_simp

lemma str_int_2021: "str_int 2021 = ''2021''"
  by code_simp

section \<open>Lemmas: the mask at one pixel\<close>

lemma maskAOD_via_finalMask: "maskAOD img = Image_updateMask img (maskAOD_finalMask img)"
  by (simp add: maskAOD_def maskAOD_finalMask_def Let_def)

lemma eval_finalMask:
  "map_of p ''AOD_QA'' = Some v \<Longrightarrow>
   eval_pixel p (maskAOD_finalMask Element) =
     Inr [(''AOD_QA'',
           map_option (\<lambda>q. if q AND 7 = 1 \<and> drop_bit 3 q AND 3 = 0 \<and> drop_bit 8 q AND 15 = 0
                             then 1 else 0) v)]"
  by (cases v)
    (simp_all add: maskAOD_finalMask_def Let_def per_band_def match_bands_def and_value_def)

lemma eval_finalMask_missing:
  "map_of p ''AOD_QA'' = None \<Longrightarrow>
   eval_pixel p (maskAOD_finalMask Element) = Inl (Band_not_found ''AOD_QA'')"
  by (simp add: maskAOD_finalMask_def Let_def)

lemma mask_holds_iff:
  "mask_holds q \<longleftrightarrow> q AND 7 = 1 \<and> drop_bit 3 q AND 3 = 0 \<and> drop_bit 8 q AND 15 = 0"
  by (simp add: mask_holds_def eval_finalMask)

text \<open>The same condition in arithmetic: the three fields as remainders.\<close>

lemma mask_holds_arith:
  "mask_holds q \<longleftrightarrow> q mod 8 = 1 \<and> (q div 8) mod 4 = 0 \<and> (q div 256) mod 16 = 0"
proof -
  have low: "x AND 7 = x mod 8" "x AND 3 = x mod 4" "x AND 15 = x mod 16" for x :: int
    using take_bit_eq_mask[of 3 x] take_bit_eq_mask[of 2 x] take_bit_eq_mask[of 4 x]
    by (simp_all add: take_bit_eq_mod mask_eq_exp_minus_1)
  show ?thesis by (simp add: mask_holds_iff low drop_bit_eq_div)
qed

lemma bit3_not_land: "bit q 3 \<Longrightarrow> drop_bit 3 q AND 3 \<noteq> (0::int)"
proof
  assume b: "bit q 3" and z: "drop_bit 3 q AND 3 = 0"
  have "bit (drop_bit 3 q AND (3::int)) 0"
    using b by (simp add: bit_and_iff bit_drop_bit_eq)
  with z show False by simp
qed

text \<open>What \<^verbatim>\<open>maskAOD\<close> does to a pixel: every band is kept as it is where the predicate
  holds on the quality value, and masked where it does not.\<close>

lemma eval_maskAOD:
  "map_of p ''AOD_QA'' = Some (Some q) \<Longrightarrow>
   eval_pixel p (maskAOD Element) =
     Inr (map (\<lambda>(b, v). (b, if mask_holds q then v else None)) p)"
  by (auto simp add: maskAOD_via_finalMask eval_finalMask match_bands_def mask_value_def
      mask_holds_iff)

section \<open>Lemmas: the effects of a run\<close>

lemma started_append: "started (tr @ tr') = started tr @ started tr'"
  by (induction tr rule: started.induct) simp_all

lemma printed_append: "printed (tr @ tr') = printed tr @ printed tr'"
  by (induction tr rule: printed.induct) simp_all

lemma session_calls_append: "session_calls (tr @ tr') = session_calls tr @ session_calls tr'"
  by (induction tr rule: session_calls.induct) simp_all

text \<open>The two ways an iteration can go.\<close>

lemma loop_body_cases:
  "loop_body env g year tr =
     (if start_raises env year
      then (Inl EEException,
            tr @ [Print (''Submitting export task for year: '' @ str_int year @ ''...''),
                  Task_start_raised (toDrive g year)])
      else (Inr (),
            tr @ [Print (''Submitting export task for year: '' @ str_int year @ ''...''),
                  Task_start (toDrive g year),
                  Print (''  - Task for year '' @ str_int year @ '' submitted in ''
                         @ elapsed env year @ '' seconds.'')]))"
  by (simp add: loop_body_def print_def task_start_def Let_def)

text \<open>The loop only appends, and what it appends does not depend on the trace it starts
  from.\<close>

lemma for_year_append:
  "for_year env g years tr = (fst (for_year env g years []), tr @ snd (for_year env g years []))"
proof (induction years arbitrary: tr)
  case Nil
  show ?case by simp
next
  case (Cons year years)
  show ?case
  proof (cases "start_raises env year")
    case True
    then show ?thesis by (simp add: loop_body_cases)
  next
    case False
    define new where
      "new = [Print (''Submitting export task for year: '' @ str_int year @ ''...''),
              Task_start (toDrive g year),
              Print (''  - Task for year '' @ str_int year @ '' submitted in ''
                     @ elapsed env year @ '' seconds.'')]"
    have a: "for_year env g (year # years) tr = for_year env g years (tr @ new)"
      using False by (simp add: loop_body_cases new_def)
    have b: "for_year env g (year # years) [] = for_year env g years new"
      using False by (simp add: loop_body_cases new_def)
    have ih1: "for_year env g years (tr @ new)
                 = (fst (for_year env g years []), (tr @ new) @ snd (for_year env g years []))"
      by (rule Cons.IH)
    have ih2: "for_year env g years new
                 = (fst (for_year env g years []), new @ snd (for_year env g years []))"
      by (rule Cons.IH)
    show ?thesis
      unfolding a b ih1 ih2 by simp
  qed
qed

text \<open>One more year at the front of the list.\<close>

lemma for_year_Cons_raises:
  "start_raises env year \<Longrightarrow>
   for_year env g (year # years) [] =
     (Inl EEException,
      [Print (''Submitting export task for year: '' @ str_int year @ ''...''),
       Task_start_raised (toDrive g year)])"
  by (simp add: loop_body_cases)

lemma for_year_Cons_returns:
  "\<not> start_raises env year \<Longrightarrow>
   for_year env g (year # years) [] =
     (fst (for_year env g years []),
      [Print (''Submitting export task for year: '' @ str_int year @ ''...''),
       Task_start (toDrive g year),
       Print (''  - Task for year '' @ str_int year @ '' submitted in ''
              @ elapsed env year @ '' seconds.'')]
      @ snd (for_year env g years []))"
proof -
  assume ok: "\<not> start_raises env year"
  define new where
    "new = [Print (''Submitting export task for year: '' @ str_int year @ ''...''),
            Task_start (toDrive g year),
            Print (''  - Task for year '' @ str_int year @ '' submitted in ''
                   @ elapsed env year @ '' seconds.'')]"
  have "for_year env g (year # years) [] = for_year env g years new"
    using ok by (simp add: loop_body_cases new_def)
  also have "\<dots> = (fst (for_year env g years []), new @ snd (for_year env g years []))"
    by (rule for_year_append)
  finally show ?thesis by (simp only: new_def)
qed

text \<open>The tasks the loop starts are those of the years before the first year whose
  submission raises, in order; the loop ends normally when no submission raises.\<close>

lemma started_for_year_Nil:
  "started (snd (for_year env g years []))
     = map (toDrive g) (takeWhile (\<lambda>y. \<not> start_raises env y) years)"
proof (induction years)
  case Nil
  show ?case by simp
next
  case (Cons year years)
  show ?case
  proof (cases "start_raises env year")
    case True
    then show ?thesis by (simp add: for_year_Cons_raises del: for_year.simps)
  next
    case False
    then show ?thesis
      by (simp add: for_year_Cons_returns started_append Cons.IH del: for_year.simps)
  qed
qed

lemma session_calls_for_year_Nil: "session_calls (snd (for_year env g years [])) = []"
proof (induction years)
  case Nil
  show ?case by simp
next
  case (Cons year years)
  show ?case
  proof (cases "start_raises env year")
    case True
    then show ?thesis by (simp add: for_year_Cons_raises del: for_year.simps)
  next
    case False
    then show ?thesis
      by (simp add: for_year_Cons_returns session_calls_append Cons.IH del: for_year.simps)
  qed
qed

lemma fst_for_year_Nil:
  "fst (for_year env g years []) = Inr () \<longleftrightarrow> (\<forall>y \<in> set years. \<not> start_raises env y)"
proof (induction years)
  case Nil
  show ?case by simp
next
  case (Cons year years)
  show ?case
  proof (cases "start_raises env year")
    case True
    then show ?thesis by (simp add: for_year_Cons_raises del: for_year.simps)
  next
    case False
    then show ?thesis by (simp add: for_year_Cons_returns Cons.IH del: for_year.simps)
  qed
qed

lemma fst_for_year:
  "fst (for_year env g years tr) = Inr () \<longleftrightarrow> (\<forall>y \<in> set years. \<not> start_raises env y)"
  by (subst for_year_append) (simp add: fst_for_year_Nil)

lemma py_range_inclusive: "py_range a (b + 1) = [a..b]"
  by (simp add: py_range_def)

lemma started_year_loop:
  "started (snd (year_loop env g a b tr))
     = started tr @ map (toDrive g) (takeWhile (\<lambda>y. \<not> start_raises env y) [a..b])"
  unfolding year_loop_def py_range_inclusive
  by (subst for_year_append) (simp add: started_append started_for_year_Nil)

lemma session_calls_year_loop: "session_calls (snd (year_loop env g a b tr)) = session_calls tr"
  unfolding year_loop_def
  by (subst for_year_append) (simp add: session_calls_append session_calls_for_year_Nil)

lemma fst_year_loop:
  "fst (year_loop env g a b tr) = Inr () \<longleftrightarrow> (\<forall>y \<in> {a..b}. \<not> start_raises env y)"
  by (simp add: year_loop_def py_range_inclusive fst_for_year)

lemma year_loop_empty: "b < a \<Longrightarrow> year_loop env g a b tr = (Inr (), tr)"
  by (simp add: year_loop_def py_range_inclusive)

lemma export_years_cases:
  "export_years env a b tr =
     (case year_loop env usa a b tr of
        (Inl e, tr1) \<Rightarrow> (Inl e, tr1)
      | (Inr u, tr1) \<Rightarrow>
          (Inr (),
           tr1 @ [Print (CHR 0x0A # ''--- All export tasks have been submitted. ---''),
                  Print ''Please go to the Google Earth Engine Code Editor website (code.earthengine.google.com)'',
                  Print ''and click 'RUN' on the tasks in the 'Tasks' tab on the right-hand side.'']))"
  by (simp add: export_years_def Let_def print_def split: prod.splits sum.splits)

lemma started_export_years:
  "started (snd (export_years env a b tr))
     = started tr @ map (toDrive usa) (takeWhile (\<lambda>y. \<not> start_raises env y) [a..b])"
  using started_year_loop[of env usa a b tr]
  by (auto simp: export_years_cases started_append split: prod.splits sum.splits)

lemma session_calls_export_years:
  "session_calls (snd (export_years env a b tr)) = session_calls tr"
  using session_calls_year_loop[of env usa a b tr]
  by (auto simp: export_years_cases session_calls_append split: prod.splits sum.splits)

lemma fst_export_years:
  "fst (export_years env a b tr) = Inr () \<longleftrightarrow> (\<forall>y \<in> {a..b}. \<not> start_raises env y)"
  using fst_year_loop[of env usa a b tr]
  by (auto simp: export_years_cases split: prod.splits sum.splits)

text \<open>The four ways the initialisation can go, and what the run is in each.\<close>

lemma script_cases:
  "script env a b =
     (if \<not> Initialize_raises env 0
      then export_years env a b
             [Print ''--- Script Start: Exporting yearly AOD data with verified logic ---'',
              Call_Initialize]
      else if Authenticate_raises env
      then (Inl EEException,
            [Print ''--- Script Start: Exporting yearly AOD data with verified logic ---'',
             Call_Initialize, Call_Authenticate])
      else if Initialize_raises env 1
      then (Inl EEException,
            [Print ''--- Script Start: Exporting yearly AOD data with verified logic ---'',
             Call_Initialize, Call_Authenticate, Call_Initialize])
      else export_years env a b
             [Print ''--- Script Start: Exporting yearly AOD data with verified logic ---'',
              Call_Initialize, Call_Authenticate, Call_Initialize])"
  by (simp add: script_def Let_def print_def ee_Initialize_def ee_Authenticate_def)

lemma started_script:
  "started (snd (script env a b)) =
     (if Initialize_raises env 0 \<and> (Authenticate_raises env \<or> Initialize_raises env 1) then []
      else map (toDrive usa) (takeWhile (\<lambda>y. \<not> start_raises env y) [a..b]))"
  by (simp add: script_cases started_export_years)

lemma fst_script:
  "fst (script env a b) = Inr () \<longleftrightarrow>
     (\<not> Initialize_raises env 0 \<or> (\<not> Authenticate_raises env \<and> \<not> Initialize_raises env 1))
     \<and> (\<forall>y \<in> {a..b}. \<not> start_raises env y)"
  by (auto simp add: script_cases fst_export_years)

lemma started_script_subset: "set (started (snd (script env a b))) \<subseteq> toDrive usa ` {a..b}"
  by (auto simp add: started_script dest: set_takeWhileD)

lemma started_script_prefix:
  "prefix (started (snd (script env a b))) (map (toDrive usa) [a..b])"
proof -
  have "prefix (takeWhile (\<lambda>y. \<not> start_raises env y) [a..b]) [a..b]"
    by (metis takeWhile_dropWhile_id prefixI)
  then show ?thesis by (simp add: started_script map_mono_prefix)
qed

lemma started_script_normal:
  "fst (script env a b) = Inr () \<Longrightarrow> started (snd (script env a b)) = map (toDrive usa) [a..b]"
  by (auto simp add: fst_script started_script takeWhile_eq_all_conv[THEN iffD2])

section \<open>Lemmas: the expression of one year\<close>

lemma pipeline_toDrive:
  "pipeline (image (toDrive g year)) =
     [From_collection collection_id, Do_filterDate (start_date year) (end_date year),
      Do_filterBounds g, Do_map (maskAOD Element), Do_select aod_band, Do_mean,
      Do_multiply scale_factor, Do_clip g]"
  by (simp add: toDrive_def annual_mean_aod_def map_collection_def)

lemma multiply_factors_maskAOD: "multiply_factors (maskAOD Element) = []"
  by (simp add: maskAOD_def Let_def)

lemma geometries_maskAOD: "geometries (maskAOD Element) = []"
  by (simp add: maskAOD_def Let_def)

lemma geometries_toDrive: "geometries (image (toDrive g year)) = [g, g]"
  by (simp add: toDrive_def annual_mean_aod_def map_collection_def geometries_maskAOD)

lemma masks_after_mean_toDrive: "masks_after_mean (image (toDrive g year)) = []"
  by (simp add: toDrive_def annual_mean_aod_def)

lemma toDrive_description_inj:
  "description (toDrive g y) = description (toDrive g y') \<Longrightarrow> y = y'"
  by (simp add: toDrive_def str_int_inj)

lemma toDrive_prefix_inj:
  "fileNamePrefix (toDrive g y) = fileNamePrefix (toDrive g y') \<Longrightarrow> y = y'"
  by (simp add: toDrive_def str_int_inj)

section \<open>Lemmas: the date window of a year\<close>

lemma length_str_nat_4: "1000 \<le> n \<Longrightarrow> n < 10000 \<Longrightarrow> length (str_nat n) = 4"
proof -
  assume lo: "1000 \<le> n" and hi: "n < 10000"
  have a: "str_nat n = str_nat (n div 10) @ [digit_char (n mod 10)]"
    using lo by (subst str_nat.simps) simp
  have b: "str_nat (n div 10) = str_nat (n div 10 div 10) @ [digit_char (n div 10 mod 10)]"
    using lo by (subst str_nat.simps) simp
  have c: "str_nat (n div 10 div 10)
             = str_nat (n div 10 div 10 div 10) @ [digit_char (n div 10 div 10 mod 10)]"
    using lo by (subst str_nat.simps) simp
  have d: "str_nat (n div 10 div 10 div 10) = [digit_char (n div 10 div 10 div 10)]"
    using hi by (subst str_nat.simps) simp
  show ?thesis by (simp add: a b c d)
qed

lemma parse_date_year:
  assumes "1000 \<le> y" "y \<le> 9999" "length md = 6" "md ! 0 = CHR ''-''" "md ! 3 = CHR ''-''"
    "number_value (take 2 (drop 1 md)) = Some m" "number_value (drop 4 md) = Some d"
    "1 \<le> m" "m \<le> 12" "1 \<le> d" "d \<le> 31"
  shows "parse_date (str_int y @ md) = Some (y, m, d, 0)"
proof -
  have s: "str_int y = str_nat (nat y)" using assms(1) by (simp add: str_int_def)
  have l: "length (str_nat (nat y)) = 4"
    using assms(1,2) by (intro length_str_nat_4) simp_all
  have v: "number_value (str_nat (nat y)) = Some (nat y)" by (rule number_value_str_nat)
  show ?thesis
    using assms by (simp add: parse_date_def s l v nth_append)
qed

lemma parse_start_date: "1000 \<le> y \<Longrightarrow> y \<le> 9999 \<Longrightarrow> parse_date (start_date y) = Some (y, 1, 1, 0)"
  unfolding start_date_def by (rule parse_date_year) (simp_all add: digit_value_def)

lemma parse_end_date: "1000 \<le> y \<Longrightarrow> y \<le> 9999 \<Longrightarrow> parse_date (end_date y) = Some (y, 12, 31, 0)"
  unfolding end_date_def by (rule parse_date_year) (simp_all add: digit_value_def)

text \<open>
  For a year of four digits, \<^verbatim>\<open>filterDate(start_date, end_date)\<close> keeps an instant exactly
  when it lies in that year and before the beginning of December 31.
\<close>

lemma filterDate_window:
  assumes "1000 \<le> y" "y \<le> 9999" "1 \<le> m" "1 \<le> d"
  shows "filterDate_keeps (start_date y) (end_date y) (y', m, d, t)
           = Some (y' = y \<and> (m < 12 \<or> (m = 12 \<and> d < 31)))"
  using assms by (auto simp add: filterDate_keeps_def parse_start_date parse_end_date)

section \<open>The quality mask\<close>

text \<open>
  C1. For every integer quality value \<open>q\<close> the mask predicate of \<^verbatim>\<open>maskAOD\<close> is true
  exactly when \<open>q & 7 = 1\<close>, \<open>(q >> 3) & 3 = 0\<close> and \<open>(q >> 8) & 15 = 0\<close>, and false
  otherwise: it is true at \<open>q = 1\<close>, false at \<open>q = 0\<close>, and false for every \<open>q\<close> with bit
  3 set. At a pixel whose \<^verbatim>\<open>AOD_QA\<close> band stores \<open>q\<close>, \<^verbatim>\<open>maskAOD\<close> keeps every band where
  the predicate is true and masks every band where it is false.
\<close>

theorem maskAOD_predicate:
  "(mask_holds q \<longleftrightarrow> q AND 7 = 1 \<and> drop_bit 3 q AND 3 = 0 \<and> drop_bit 8 q AND 15 = 0)
   \<and> mask_holds 1 \<and> \<not> mask_holds 0 \<and> (bit q 3 \<longrightarrow> \<not> mask_holds q)
   \<and> (map_of p ''AOD_QA'' = Some (Some q) \<longrightarrow>
        eval_pixel p (maskAOD Element) =
          Inr (map (\<lambda>(b, v). (b, if mask_holds q then v else None)) p))"
proof -
  have one: "mask_holds 1" by (simp add: mask_holds_iff)
  have zero: "\<not> mask_holds 0" by (simp add: mask_holds_iff)
  have b3: "bit q 3 \<longrightarrow> \<not> mask_holds q"
    using bit3_not_land[of q] by (simp add: mask_holds_iff)
  from one zero b3 show ?thesis
    by (simp add: mask_holds_iff[symmetric] eval_maskAOD)
qed

theorem maskAOD_predicate_witness:
  "bit (9::int) 3 \<and> \<not> mask_holds 9
   \<and> map_of [(''AOD_QA'', Some 9), (''Optical_Depth_055'', Some 250)] ''AOD_QA'' = Some (Some 9)
   \<and> eval_pixel [(''AOD_QA'', Some 9), (''Optical_Depth_055'', Some 250)] (maskAOD Element) =
       Inr [(''AOD_QA'', None), (''Optical_Depth_055'', None)]
   \<and> eval_pixel [(''AOD_QA'', Some 1), (''Optical_Depth_055'', Some 250)] (maskAOD Element) =
       Inr [(''AOD_QA'', Some 1), (''Optical_Depth_055'', Some 250)]"
proof -
  have b: "bit (9::int) 3" by simp
  have m: "map_of [(''AOD_QA'', Some 9), (''Optical_Depth_055'', Some (250::int))] ''AOD_QA''
             = Some (Some (9::int))"
    by simp
  have m1: "map_of [(''AOD_QA'', Some 1), (''Optical_Depth_055'', Some (250::int))] ''AOD_QA''
             = Some (Some (1::int))"
    by simp
  show ?thesis
    using b m m1
      maskAOD_predicate[of 9 "[(''AOD_QA'', Some 9), (''Optical_Depth_055'', Some 250)]"]
      maskAOD_predicate[of 1 "[(''AOD_QA'', Some 1), (''Optical_Depth_055'', Some 250)]"]
    by simp
qed

text \<open>
  C9. The mask predicate is a pure function of the quality value: at any two pixels (of
  any two images, years or runs) whose \<^verbatim>\<open>AOD_QA\<close> band reads the same, whatever their other
  bands hold, \<^verbatim>\<open>finalMask\<close> evaluates to the same result. The evaluation takes the pixel
  and nothing else: there is no state it could read.
\<close>

theorem maskAOD_quality_only:
  "map_of p1 ''AOD_QA'' = map_of p2 ''AOD_QA'' \<Longrightarrow>
   eval_pixel p1 (maskAOD_finalMask Element) = eval_pixel p2 (maskAOD_finalMask Element)"
proof (cases "map_of p2 ''AOD_QA''")
  case None
  assume "map_of p1 ''AOD_QA'' = map_of p2 ''AOD_QA''"
  with None show ?thesis by (simp add: eval_finalMask_missing)
next
  case (Some v)
  assume "map_of p1 ''AOD_QA'' = map_of p2 ''AOD_QA''"
  with Some show ?thesis by (simp add: eval_finalMask)
qed

theorem maskAOD_quality_only_witness:
  "map_of [(''AOD_QA'', Some 1), (''Optical_Depth_055'', Some (250::int))] ''AOD_QA''
     = map_of [(''Optical_Depth_055'', None), (''AOD_QA'', Some 1)] ''AOD_QA''
   \<and> eval_pixel [(''AOD_QA'', Some 1), (''Optical_Depth_055'', Some 250)]
        (maskAOD_finalMask Element)
     = eval_pixel [(''Optical_Depth_055'', None), (''AOD_QA'', Some 1)]
        (maskAOD_finalMask Element)"
proof -
  have h: "map_of [(''AOD_QA'', Some 1), (''Optical_Depth_055'', Some (250::int))] ''AOD_QA''
     = map_of [(''Optical_Depth_055'', None), (''AOD_QA'', Some 1)] ''AOD_QA''" by simp
  from h maskAOD_quality_only[OF h] show ?thesis by simp
qed

section \<open>The year loop and the tasks\<close>

lemma started_script_2020_2021:
  "started (snd (script session_cached 2020 2021)) = [toDrive usa 2020, toDrive usa 2021]"
  by (simp add: started_script session_cached_def)

lemma upto_2020_2021: "[2020..2021] = [2020, 2021::int]"
  by simp

lemma names_contain_year:
  "sublist (str_int year) (description (toDrive g year))
   \<and> sublist (str_int year) (fileNamePrefix (toDrive g year))"
proof -
  have a: "sublist (str_int year) (''Annual_Mean_AOD_'' @ str_int year @ ''_USA'')"
    by (rule sublist_appendI)
  have b: "sublist (str_int year) (''AOD_'' @ str_int year @ ''_USA'')"
    by (rule sublist_appendI)
  have c: "description (toDrive g year) = ''Annual_Mean_AOD_'' @ str_int year @ ''_USA''"
    "fileNamePrefix (toDrive g year) = ''AOD_'' @ str_int year @ ''_USA''"
    by (simp_all add: toDrive_def)
  from a b show ?thesis by (simp only: c)
qed

lemma distinct_names:
  "distinct ys \<Longrightarrow> distinct (map description (map (toDrive g) ys))
     \<and> distinct (map fileNamePrefix (map (toDrive g) ys))"
proof -
  assume d: "distinct ys"
  have i1: "inj_on (\<lambda>y. description (toDrive g y)) (set ys)"
    by (rule inj_onI) (rule toDrive_description_inj)
  have i2: "inj_on (\<lambda>y. fileNamePrefix (toDrive g y)) (set ys)"
    by (rule inj_onI) (rule toDrive_prefix_inj)
  from d i1 i2 show ?thesis by (simp add: distinct_map comp_def)
qed

text \<open>
  C3, as the script has it. A run in which a call raises is cut short (no call of the loop
  stands in a \<^verbatim>\<open>try\<close>), so the count of one task per year is the count of the runs that
  end normally. For every pair of years with \<open>first_year \<le> last_year\<close>: a run
  that ends normally has started exactly \<open>last_year - first_year + 1\<close> tasks, one per year
  of the inclusive range and in that order, and so has the loop on its own, for any
  boundary; a run ended by an exception has started the tasks of the first years of the
  range, at most that many. In every run the description and the file name prefix of each
  started task contain the decimal text of its year, the descriptions are pairwise distinct
  and so are the prefixes. A range of one year gives one task on a run that ends normally.
\<close>

theorem one_task_per_year:
  assumes "first_year \<le> last_year"
  shows "(fst (script env first_year last_year) = Inr () \<longrightarrow>
           length (started (snd (script env first_year last_year)))
             = nat (last_year - first_year + 1)
           \<and> map description (started (snd (script env first_year last_year)))
               = map (\<lambda>year. ''Annual_Mean_AOD_'' @ str_int year @ ''_USA'')
                   [first_year..last_year]
           \<and> map fileNamePrefix (started (snd (script env first_year last_year)))
               = map (\<lambda>year. ''AOD_'' @ str_int year @ ''_USA'') [first_year..last_year])
    \<and> (fst (year_loop env g first_year last_year []) = Inr () \<longrightarrow>
           length (started (snd (year_loop env g first_year last_year [])))
             = nat (last_year - first_year + 1)
           \<and> map description (started (snd (year_loop env g first_year last_year [])))
               = map (\<lambda>year. ''Annual_Mean_AOD_'' @ str_int year @ ''_USA'')
                   [first_year..last_year]
           \<and> map fileNamePrefix (started (snd (year_loop env g first_year last_year [])))
               = map (\<lambda>year. ''AOD_'' @ str_int year @ ''_USA'') [first_year..last_year])
    \<and> length (started (snd (script env first_year last_year)))
         \<le> nat (last_year - first_year + 1)
    \<and> list_all2 (\<lambda>t year. sublist (str_int year) (description t)
                          \<and> sublist (str_int year) (fileNamePrefix t))
         (started (snd (script env first_year last_year)))
         (take (length (started (snd (script env first_year last_year))))
            [first_year..last_year])
    \<and> distinct (map description (started (snd (script env first_year last_year))))
    \<and> distinct (map fileNamePrefix (started (snd (script env first_year last_year))))
    \<and> (fst (script env first_year first_year) = Inr () \<longrightarrow>
          length (started (snd (script env first_year first_year))) = 1)"
proof -
  let ?ts = "started (snd (script env first_year last_year))"
  let ?ls = "started (snd (year_loop env g first_year last_year []))"
  have names: "map description (map (toDrive b) ys)
                 = map (\<lambda>year. ''Annual_Mean_AOD_'' @ str_int year @ ''_USA'') ys
               \<and> map fileNamePrefix (map (toDrive b) ys)
                 = map (\<lambda>year. ''AOD_'' @ str_int year @ ''_USA'') ys" for b ys
    by (simp add: toDrive_def)
  have normal: "fst (script env first_year last_year) = Inr () \<longrightarrow>
           length ?ts = nat (last_year - first_year + 1)
           \<and> map description ?ts
               = map (\<lambda>year. ''Annual_Mean_AOD_'' @ str_int year @ ''_USA'')
                   [first_year..last_year]
           \<and> map fileNamePrefix ?ts
               = map (\<lambda>year. ''AOD_'' @ str_int year @ ''_USA'') [first_year..last_year]"
  proof
    assume "fst (script env first_year last_year) = Inr ()"
    then have ts: "?ts = map (toDrive usa) [first_year..last_year]"
      by (rule started_script_normal)
    show "length ?ts = nat (last_year - first_year + 1)
           \<and> map description ?ts
               = map (\<lambda>year. ''Annual_Mean_AOD_'' @ str_int year @ ''_USA'')
                   [first_year..last_year]
           \<and> map fileNamePrefix ?ts
               = map (\<lambda>year. ''AOD_'' @ str_int year @ ''_USA'') [first_year..last_year]"
      unfolding ts using names[of usa "[first_year..last_year]"] by simp
  qed
  have loop: "fst (year_loop env g first_year last_year []) = Inr () \<longrightarrow>
           length ?ls = nat (last_year - first_year + 1)
           \<and> map description ?ls
               = map (\<lambda>year. ''Annual_Mean_AOD_'' @ str_int year @ ''_USA'')
                   [first_year..last_year]
           \<and> map fileNamePrefix ?ls
               = map (\<lambda>year. ''AOD_'' @ str_int year @ ''_USA'') [first_year..last_year]"
  proof
    assume "fst (year_loop env g first_year last_year []) = Inr ()"
    then have "\<forall>y \<in> set [first_year..last_year]. \<not> start_raises env y"
      by (simp add: fst_year_loop)
    then have tw: "takeWhile (\<lambda>y. \<not> start_raises env y) [first_year..last_year]
                 = [first_year..last_year]"
      by (simp only: takeWhile_eq_all_conv)
    have ls: "?ls = map (toDrive g) [first_year..last_year]"
      unfolding started_year_loop tw by simp
    show "length ?ls = nat (last_year - first_year + 1)
           \<and> map description ?ls
               = map (\<lambda>year. ''Annual_Mean_AOD_'' @ str_int year @ ''_USA'')
                   [first_year..last_year]
           \<and> map fileNamePrefix ?ls
               = map (\<lambda>year. ''AOD_'' @ str_int year @ ''_USA'') [first_year..last_year]"
      unfolding ls using names[of g "[first_year..last_year]"] by simp
  qed
  obtain ys where ts: "?ts = map (toDrive usa) ys" and pre: "prefix ys [first_year..last_year]"
  proof (cases "Initialize_raises env 0 \<and> (Authenticate_raises env \<or> Initialize_raises env 1)")
    case True
    then have "?ts = map (toDrive usa) []" by (simp add: started_script)
    then show ?thesis using that[of "[]"] by simp
  next
    case False
    then have "?ts = map (toDrive usa)
                      (takeWhile (\<lambda>y. \<not> start_raises env y) [first_year..last_year])"
      by (subst started_script) auto
    moreover have "prefix (takeWhile (\<lambda>y. \<not> start_raises env y) [first_year..last_year])
                     [first_year..last_year]"
      by (metis takeWhile_dropWhile_id prefixI)
    ultimately show ?thesis using that by blast
  qed
  from pre have ys: "ys = take (length ys) [first_year..last_year]"
    by (metis append_eq_conv_conj prefixE)
  from pre have "length ys \<le> length [first_year..last_year]"
    by (rule prefix_length_le)
  then have atmost: "length ?ts \<le> nat (last_year - first_year + 1)"
    by (simp add: ts)
  have "list_all2 (\<lambda>t year. sublist (str_int year) (description t)
                          \<and> sublist (str_int year) (fileNamePrefix t))
          (map (toDrive usa) ys) ys"
    by (simp add: list_all2_map1 list_all2_same names_contain_year)
  with ys have contains: "list_all2 (\<lambda>t year. sublist (str_int year) (description t)
                          \<and> sublist (str_int year) (fileNamePrefix t))
         ?ts (take (length ?ts) [first_year..last_year])"
    by (simp add: ts)
  from pre have "distinct ys"
    by (metis distinct_upto distinct_append prefixE)
  then have dd: "distinct (map description ?ts)" and df: "distinct (map fileNamePrefix ?ts)"
    unfolding ts using distinct_names[of ys usa] by simp_all
  have one: "fst (script env first_year first_year) = Inr () \<longrightarrow>
          length (started (snd (script env first_year first_year))) = 1"
    by (simp add: started_script_normal)
  from normal loop atmost contains dd df one show ?thesis by blast
qed

theorem one_task_per_year_witness:
  "(2020::int) \<le> 2021
   \<and> fst (script session_cached 2020 2021) = Inr ()
   \<and> length (started (snd (script session_cached 2020 2021))) = 2
   \<and> map description (started (snd (script session_cached 2020 2021)))
       = [''Annual_Mean_AOD_2020_USA'', ''Annual_Mean_AOD_2021_USA'']
   \<and> map fileNamePrefix (started (snd (script session_cached 2020 2021)))
       = [''AOD_2020_USA'', ''AOD_2021_USA'']
   \<and> fst (script session_cached 2020 2020) = Inr ()
   \<and> length (started (snd (script session_cached 2020 2020))) = 1"
proof -
  have h: "(2020::int) \<le> 2021" by simp
  have ok: "fst (script session_cached 2020 2021) = Inr ()"
    "fst (script session_cached 2020 2020) = Inr ()"
    by (simp_all add: fst_script session_cached_def)
  from one_task_per_year[OF h, of session_cached usa] ok h show ?thesis
    by (simp add: upto_2020_2021 str_int_2020 str_int_2021)
qed

text \<open>The count is not that of every run: with the range 2020 to 2021 and a
  \<^verbatim>\<open>task.start()\<close> that raises for 2021, the run ends with the exception and has started
  one task, not two.\<close>

theorem one_task_per_year_counterexample:
  "(2020::int) \<le> 2021
   \<and> nat (2021 - 2020 + 1) = 2
   \<and> fst (script submission_fails_2021 2020 2021) = Inl EEException
   \<and> started (snd (script submission_fails_2021 2020 2021)) = [toDrive usa 2020]
   \<and> length (started (snd (script submission_fails_2021 2020 2021))) = 1"
proof -
  have s: "started (snd (script submission_fails_2021 2020 2021)) = [toDrive usa 2020]"
    by (simp add: started_script submission_fails_2021_def)
  have "fst (script submission_fails_2021 2020 2021) \<noteq> Inr ()"
    by (simp add: fst_script submission_fails_2021_def)
  then have e: "fst (script submission_fails_2021 2020 2021) = Inl EEException"
    by (cases "fst (script submission_fails_2021 2020 2021)") (simp_all, metis exn.exhaust)
  from s e show ?thesis by simp
qed

text \<open>
  C7. Every task the script starts, whatever the year, has the export resolution constant
  as its scale, the coordinate reference system \<^verbatim>\<open>EPSG:4326\<close>, the folder \<^verbatim>\<open>GEE_Exports\<close>,
  the pixel ceiling \<open>10\<^sup>1\<^sup>3\<close>, a file name prefix \<^verbatim>\<open>AOD_<year>_USA\<close> for a year of the
  range, and that year's composite clipped to the boundary as its image.
\<close>

theorem export_parameters:
  "\<forall>t \<in> set (started (snd (script env first_year last_year))).
     scale t = export_scale \<and> crs t = ''EPSG:4326'' \<and> folder t = ''GEE_Exports''
     \<and> maxPixels t = 10 ^ 13
     \<and> (\<exists>year \<in> {first_year..last_year}.
          fileNamePrefix t = ''AOD'' @ ''_'' @ str_int year @ ''_'' @ ''USA''
          \<and> image t = Image_clip (annual_mean_aod usa year) usa)"
proof
  fix t assume "t \<in> set (started (snd (script env first_year last_year)))"
  with started_script_subset[of env first_year last_year]
  obtain year where y: "year \<in> {first_year..last_year}" and t: "t = toDrive usa year" by blast
  have "fileNamePrefix t = ''AOD'' @ ''_'' @ str_int year @ ''_'' @ ''USA''
          \<and> image t = Image_clip (annual_mean_aod usa year) usa"
    by (simp add: t toDrive_def)
  with y have ex: "\<exists>year \<in> {first_year..last_year}.
          fileNamePrefix t = ''AOD'' @ ''_'' @ str_int year @ ''_'' @ ''USA''
          \<and> image t = Image_clip (annual_mean_aod usa year) usa" by blast
  have "scale t = export_scale \<and> crs t = ''EPSG:4326'' \<and> folder t = ''GEE_Exports''
     \<and> maxPixels t = 10 ^ 13"
    by (simp add: t toDrive_def)
  with ex show "scale t = export_scale \<and> crs t = ''EPSG:4326'' \<and> folder t = ''GEE_Exports''
     \<and> maxPixels t = 10 ^ 13
     \<and> (\<exists>year \<in> {first_year..last_year}.
          fileNamePrefix t = ''AOD'' @ ''_'' @ str_int year @ ''_'' @ ''USA''
          \<and> image t = Image_clip (annual_mean_aod usa year) usa)" by blast
qed

theorem export_parameters_witness:
  "toDrive usa 2021 \<in> set (started (snd (script session_cached 2020 2021)))
   \<and> scale (toDrive usa 2021) = 1000 \<and> crs (toDrive usa 2021) = ''EPSG:4326''
   \<and> folder (toDrive usa 2021) = ''GEE_Exports'' \<and> maxPixels (toDrive usa 2021) = 10000000000000
   \<and> fileNamePrefix (toDrive usa 2021) = ''AOD_2021_USA''"
proof -
  have m: "toDrive usa 2021 \<in> set (started (snd (script session_cached 2020 2021)))"
    by (simp add: started_script_2020_2021)
  have p: "fileNamePrefix (toDrive usa 2021) = ''AOD_2021_USA''"
    by (simp add: toDrive_def str_int_2021)
  from bspec[OF export_parameters m] m p show ?thesis
    by (simp add: export_scale_def)
qed

text \<open>
  C10, as the script has it. When \<open>last_year < first_year\<close> the loop body never runs: the
  loop returns with the trace as it found it, the rest of the script only adds the three
  lines of the final message and returns, and no run starts a task. The final message is
  reached when the session gets initialised, and only then: a run ends normally exactly
  when the first initialisation returns, or the authentication and the second
  initialisation both return; such a run has printed the start banner and the final
  message, nothing else.
\<close>

theorem empty_year_range:
  assumes "last_year < first_year"
  shows "year_loop env g first_year last_year tr = (Inr (), tr)
    \<and> export_years env first_year last_year tr =
        (Inr (),
         tr @ [Print (CHR 0x0A # ''--- All export tasks have been submitted. ---''),
               Print ''Please go to the Google Earth Engine Code Editor website (code.earthengine.google.com)'',
               Print ''and click 'RUN' on the tasks in the 'Tasks' tab on the right-hand side.''])
    \<and> started (snd (script env first_year last_year)) = []
    \<and> (fst (script env first_year last_year) = Inr ()
         \<longleftrightarrow> \<not> Initialize_raises env 0
             \<or> (\<not> Authenticate_raises env \<and> \<not> Initialize_raises env 1))
    \<and> (fst (script env first_year last_year) = Inr () \<longrightarrow>
         printed (snd (script env first_year last_year)) =
           [''--- Script Start: Exporting yearly AOD data with verified logic ---'',
            CHR 0x0A # ''--- All export tasks have been submitted. ---'',
            ''Please go to the Google Earth Engine Code Editor website (code.earthengine.google.com)'',
            ''and click 'RUN' on the tasks in the 'Tasks' tab on the right-hand side.''])"
proof -
  have loop: "year_loop env g first_year last_year tr = (Inr (), tr)" for g tr
    using assms by (rule year_loop_empty)
  have rest: "export_years env first_year last_year tr =
        (Inr (),
         tr @ [Print (CHR 0x0A # ''--- All export tasks have been submitted. ---''),
               Print ''Please go to the Google Earth Engine Code Editor website (code.earthengine.google.com)'',
               Print ''and click 'RUN' on the tasks in the 'Tasks' tab on the right-hand side.''])" for tr
    by (simp add: export_years_cases loop)
  have none: "started (snd (script env first_year last_year)) = []"
    using assms by (simp add: started_script)
  have ends: "fst (script env first_year last_year) = Inr ()
         \<longleftrightarrow> \<not> Initialize_raises env 0
             \<or> (\<not> Authenticate_raises env \<and> \<not> Initialize_raises env 1)"
    using assms by (simp add: fst_script)
  have out: "fst (script env first_year last_year) = Inr () \<longrightarrow>
         printed (snd (script env first_year last_year)) =
           [''--- Script Start: Exporting yearly AOD data with verified logic ---'',
            CHR 0x0A # ''--- All export tasks have been submitted. ---'',
            ''Please go to the Google Earth Engine Code Editor website (code.earthengine.google.com)'',
            ''and click 'RUN' on the tasks in the 'Tasks' tab on the right-hand side.'']"
    by (simp add: script_cases rest)
  from loop rest none ends out show ?thesis by blast
qed

theorem empty_year_range_witness:
  "(2020::int) < 2021
   \<and> script session_cached 2021 2020 =
       (Inr (),
        [Print ''--- Script Start: Exporting yearly AOD data with verified logic ---'',
         Call_Initialize,
         Print (CHR 0x0A # ''--- All export tasks have been submitted. ---''),
         Print ''Please go to the Google Earth Engine Code Editor website (code.earthengine.google.com)'',
         Print ''and click 'RUN' on the tasks in the 'Tasks' tab on the right-hand side.''])
   \<and> fst (script session_absent 2021 2020) = Inr ()
   \<and> started (snd (script session_absent 2021 2020)) = []"
proof -
  have h: "(2020::int) < 2021" by simp
  have c: "\<not> Initialize_raises session_cached 0" by (simp add: session_cached_def)
  have a: "\<not> Authenticate_raises session_absent" "\<not> Initialize_raises session_absent 1"
    by (simp_all add: session_absent_def)
  from empty_year_range[OF h, of session_cached usa
      "[Print ''--- Script Start: Exporting yearly AOD data with verified logic ---'', Call_Initialize]"]
  have "export_years session_cached 2021 2020
          [Print ''--- Script Start: Exporting yearly AOD data with verified logic ---'', Call_Initialize]
        = (Inr (),
           [Print ''--- Script Start: Exporting yearly AOD data with verified logic ---'',
            Call_Initialize,
            Print (CHR 0x0A # ''--- All export tasks have been submitted. ---''),
            Print ''Please go to the Google Earth Engine Code Editor website (code.earthengine.google.com)'',
            Print ''and click 'RUN' on the tasks in the 'Tasks' tab on the right-hand side.''])"
    by simp
  with h c a empty_year_range[OF h, of session_absent usa "[]"] show ?thesis
    by (simp add: script_cases)
qed

text \<open>The final message is not reached by every run: with the range 2021 to 2020 and a
  platform that refuses both initialisations, the run ends with the exception of the
  second one, and the final message is not printed.\<close>

theorem empty_year_range_counterexample:
  "(2020::int) < 2021
   \<and> script session_refused 2021 2020 =
       (Inl EEException,
        [Print ''--- Script Start: Exporting yearly AOD data with verified logic ---'',
         Call_Initialize, Call_Authenticate, Call_Initialize])
   \<and> printed (snd (script session_refused 2021 2020)) =
       [''--- Script Start: Exporting yearly AOD data with verified logic ---'']"
  by (simp add: script_cases session_refused_def)

section \<open>The expression of each task\<close>

text \<open>
  C4. In the image of every task the script starts, the scale factor is the only factor of
  any \<^verbatim>\<open>multiply\<close> in the whole expression, and that \<^verbatim>\<open>multiply\<close> is applied to the result
  of the \<^verbatim>\<open>mean\<close>: nothing inside the operand of the mean multiplies, so the mean is taken
  over the stored values and scaled once afterwards.
\<close>

theorem scale_after_mean:
  "\<forall>t \<in> set (started (snd (script env first_year last_year))).
     multiply_factors (image t) = [scale_factor]
     \<and> (\<exists>c. image t = Image_clip (Image_multiply (ImageCollection_mean c) scale_factor) usa
            \<and> multiply_factors_c c = [])"
proof
  fix t assume "t \<in> set (started (snd (script env first_year last_year)))"
  with started_script_subset[of env first_year last_year]
  obtain year where t: "t = toDrive usa year" by blast
  show "multiply_factors (image t) = [scale_factor]
     \<and> (\<exists>c. image t = Image_clip (Image_multiply (ImageCollection_mean c) scale_factor) usa
            \<and> multiply_factors_c c = [])"
    by (simp add: t toDrive_def annual_mean_aod_def map_collection_def multiply_factors_maskAOD)
qed

theorem scale_after_mean_witness:
  "toDrive usa 2020 \<in> set (started (snd (script session_cached 2020 2021)))
   \<and> multiply_factors (image (toDrive usa 2020)) = [1 / 1000]
   \<and> pipeline (image (toDrive usa 2020)) =
       [From_collection ''MODIS/061/MCD19A2_GRANULES'', Do_filterDate ''2020-01-01'' ''2020-12-31'',
        Do_filterBounds usa, Do_map (maskAOD Element), Do_select ''Optical_Depth_055'', Do_mean,
        Do_multiply (1 / 1000), Do_clip usa]"
proof -
  have m: "toDrive usa 2020 \<in> set (started (snd (script session_cached 2020 2021)))"
    by (simp add: started_script_2020_2021)
  have p: "pipeline (image (toDrive usa 2020)) =
       [From_collection ''MODIS/061/MCD19A2_GRANULES'', Do_filterDate ''2020-01-01'' ''2020-12-31'',
        Do_filterBounds usa, Do_map (maskAOD Element), Do_select ''Optical_Depth_055'', Do_mean,
        Do_multiply (1 / 1000), Do_clip usa]"
    by (simp add: pipeline_toDrive collection_id_def aod_band_def scale_factor_def start_date_def
        end_date_def str_int_2020)
  from bspec[OF scale_after_mean m] m p show ?thesis
    by (simp add: scale_factor_def)
qed

text \<open>
  C5. In the image of every task the script starts, for every year of the range, the
  method chain is: the collection filtered by date and bounds, then \<^verbatim>\<open>map(maskAOD)\<close> over
  that filtered collection, then the band selection, then the \<^verbatim>\<open>mean\<close>, then the scaling and
  the clip; and no \<^verbatim>\<open>updateMask\<close> is applied outside the operand of the mean.
\<close>

theorem mask_before_mean:
  "\<forall>t \<in> set (started (snd (script env first_year last_year))).
     masks_after_mean (image t) = []
     \<and> (\<exists>year \<in> {first_year..last_year}.
          pipeline (image t) =
            pipeline_c (ImageCollection_filterBounds
                          (ImageCollection_filterDate (ImageCollection collection_id)
                             (start_date year) (end_date year)) usa)
            @ [Do_map (maskAOD Element), Do_select aod_band, Do_mean,
               Do_multiply scale_factor, Do_clip usa])"
proof
  fix t assume "t \<in> set (started (snd (script env first_year last_year)))"
  with started_script_subset[of env first_year last_year]
  obtain year where y: "year \<in> {first_year..last_year}" and t: "t = toDrive usa year" by blast
  have "pipeline (image t) =
            pipeline_c (ImageCollection_filterBounds
                          (ImageCollection_filterDate (ImageCollection collection_id)
                             (start_date year) (end_date year)) usa)
            @ [Do_map (maskAOD Element), Do_select aod_band, Do_mean,
               Do_multiply scale_factor, Do_clip usa]"
    by (simp add: t pipeline_toDrive)
  with y have "\<exists>year \<in> {first_year..last_year}.
          pipeline (image t) =
            pipeline_c (ImageCollection_filterBounds
                          (ImageCollection_filterDate (ImageCollection collection_id)
                             (start_date year) (end_date year)) usa)
            @ [Do_map (maskAOD Element), Do_select aod_band, Do_mean,
               Do_multiply scale_factor, Do_clip usa]" by blast
  then show "masks_after_mean (image t) = []
     \<and> (\<exists>year \<in> {first_year..last_year}.
          pipeline (image t) =
            pipeline_c (ImageCollection_filterBounds
                          (ImageCollection_filterDate (ImageCollection collection_id)
                             (start_date year) (end_date year)) usa)
            @ [Do_map (maskAOD Element), Do_select aod_band, Do_mean,
               Do_multiply scale_factor, Do_clip usa])"
    by (simp add: t masks_after_mean_toDrive)
qed

theorem mask_before_mean_witness:
  "toDrive usa 2020 \<in> set (started (snd (script session_cached 2020 2021)))
   \<and> masks_after_mean (image (toDrive usa 2020)) = []
   \<and> masks_after_mean (maskAOD Element) = [maskAOD_finalMask Element]"
proof -
  have m: "toDrive usa 2020 \<in> set (started (snd (script session_cached 2020 2021)))"
    by (simp add: started_script_2020_2021)
  have b: "masks_after_mean (maskAOD Element) = [maskAOD_finalMask Element]"
    by (simp add: maskAOD_def maskAOD_finalMask_def Let_def)
  from bspec[OF mask_before_mean m] m b show ?thesis
    by simp
qed

text \<open>
  C8. The loop takes the boundary as a value fixed before it starts and never changes it:
  whatever boundary \<open>g\<close> it is given, the image of every task it starts names \<open>g\<close> twice and
  no other geometry, once in \<^verbatim>\<open>filterBounds\<close> and once in the final \<^verbatim>\<open>clip\<close>. The script
  binds the boundary once (\<^const>\<open>usa\<close>, line 23) and runs the loop on it, so every task of
  a run uses \<^const>\<open>usa\<close> in both places.
\<close>

theorem boundary_reused:
  "(\<forall>t \<in> set (started (snd (year_loop env g first_year last_year []))).
      geometries (image t) = [g, g]
      \<and> Do_filterBounds g \<in> set (pipeline (image t))
      \<and> last (pipeline (image t)) = Do_clip g)
   \<and> started (snd (export_years env first_year last_year tr))
       = started tr @ started (snd (year_loop env usa first_year last_year []))
   \<and> (\<forall>t \<in> set (started (snd (script env first_year last_year))).
        geometries (image t) = [usa, usa]
        \<and> Do_filterBounds usa \<in> set (pipeline (image t))
        \<and> last (pipeline (image t)) = Do_clip usa)"
proof -
  have one: "geometries (image (toDrive b year)) = [b, b]
      \<and> Do_filterBounds b \<in> set (pipeline (image (toDrive b year)))
      \<and> last (pipeline (image (toDrive b year))) = Do_clip b" for b year
    by (simp add: geometries_toDrive pipeline_toDrive)
  have loop: "\<forall>t \<in> set (started (snd (year_loop env g first_year last_year []))).
      geometries (image t) = [g, g]
      \<and> Do_filterBounds g \<in> set (pipeline (image t))
      \<and> last (pipeline (image t)) = Do_clip g"
    using one[of g] by (auto simp: started_year_loop dest: set_takeWhileD)
  have once: "started (snd (export_years env first_year last_year tr))
       = started tr @ started (snd (year_loop env usa first_year last_year []))"
    by (simp add: started_export_years started_year_loop)
  have whole: "\<forall>t \<in> set (started (snd (script env first_year last_year))).
        geometries (image t) = [usa, usa]
        \<and> Do_filterBounds usa \<in> set (pipeline (image t))
        \<and> last (pipeline (image t)) = Do_clip usa"
    using one[of usa] started_script_subset[of env first_year last_year] by blast
  from loop once whole show ?thesis by blast
qed

theorem boundary_reused_witness:
  "toDrive usa 2020 \<in> set (started (snd (script session_cached 2020 2021)))
   \<and> toDrive usa 2021 \<in> set (started (snd (script session_cached 2020 2021)))
   \<and> geometries (image (toDrive usa 2020)) = [usa, usa]
   \<and> geometries (image (toDrive usa 2021)) = [usa, usa]
   \<and> last (pipeline (image (toDrive usa 2021))) = Do_clip usa"
proof -
  have m: "toDrive usa 2020 \<in> set (started (snd (script session_cached 2020 2021)))"
    "toDrive usa 2021 \<in> set (started (snd (script session_cached 2020 2021)))"
    by (simp_all add: started_script_2020_2021)
  note whole = boundary_reused[of session_cached usa 2020 2021 "[]", THEN conjunct2, THEN conjunct2]
  from bspec[OF whole m(1)] bspec[OF whole m(2)] m show ?thesis
    by simp
qed

section \<open>Initialisation\<close>

text \<open>
  C6, as the script has it. The re-authentication is itself a call that can raise, inside
  the handler, and then nothing follows it: the retry follows a re-authentication that
  returned. When the first \<^verbatim>\<open>ee.Initialize()\<close> raises, the script calls
  \<^verbatim>\<open>ee.Authenticate()\<close> once. When that returns, it calls \<^verbatim>\<open>ee.Initialize()\<close> once more,
  and these three are all the session calls of the run; when the second initialisation
  raises as well, the exception is not caught: the run ends with it right there, with no
  task started and nothing further printed; when it returns the run goes on to the
  exports. When the authentication raises, the run ends with that exception and there is
  no second initialisation. When the first initialisation returns there is no
  authentication and no second initialisation. No run calls \<^verbatim>\<open>ee.Authenticate()\<close> more
  than once or \<^verbatim>\<open>ee.Initialize()\<close> more than twice.
\<close>

theorem initialize_fallback:
  "(Initialize_raises env 0 \<and> \<not> Authenticate_raises env \<longrightarrow>
      session_calls (snd (script env first_year last_year))
        = [Call_Initialize, Call_Authenticate, Call_Initialize])
   \<and> (Initialize_raises env 0 \<and> \<not> Authenticate_raises env \<and> Initialize_raises env 1 \<longrightarrow>
        script env first_year last_year =
          (Inl EEException,
           [Print ''--- Script Start: Exporting yearly AOD data with verified logic ---'',
            Call_Initialize, Call_Authenticate, Call_Initialize]))
   \<and> (Initialize_raises env 0 \<and> \<not> Authenticate_raises env \<and> \<not> Initialize_raises env 1 \<longrightarrow>
        script env first_year last_year =
          export_years env first_year last_year
            [Print ''--- Script Start: Exporting yearly AOD data with verified logic ---'',
             Call_Initialize, Call_Authenticate, Call_Initialize])
   \<and> (Initialize_raises env 0 \<and> Authenticate_raises env \<longrightarrow>
        script env first_year last_year =
          (Inl EEException,
           [Print ''--- Script Start: Exporting yearly AOD data with verified logic ---'',
            Call_Initialize, Call_Authenticate]))
   \<and> (\<not> Initialize_raises env 0 \<longrightarrow>
        session_calls (snd (script env first_year last_year)) = [Call_Initialize]
        \<and> script env first_year last_year =
            export_years env first_year last_year
              [Print ''--- Script Start: Exporting yearly AOD data with verified logic ---'',
               Call_Initialize])
   \<and> count_list (session_calls (snd (script env first_year last_year))) Call_Authenticate \<le> 1
   \<and> count_list (session_calls (snd (script env first_year last_year))) Call_Initialize \<le> 2"
  by (simp add: script_cases session_calls_export_years)

theorem initialize_fallback_witness:
  "Initialize_raises session_refused 0 \<and> \<not> Authenticate_raises session_refused
   \<and> Initialize_raises session_refused 1
   \<and> script session_refused 2015 2024 =
       (Inl EEException,
        [Print ''--- Script Start: Exporting yearly AOD data with verified logic ---'',
         Call_Initialize, Call_Authenticate, Call_Initialize])
   \<and> Initialize_raises session_absent 0 \<and> \<not> Authenticate_raises session_absent
   \<and> \<not> Initialize_raises session_absent 1
   \<and> session_calls (snd (script session_absent 2015 2024))
       = [Call_Initialize, Call_Authenticate, Call_Initialize]
   \<and> Authenticate_raises authentication_fails
   \<and> session_calls (snd (script authentication_fails 2015 2024))
       = [Call_Initialize, Call_Authenticate]
   \<and> \<not> Initialize_raises session_cached 0
   \<and> session_calls (snd (script session_cached 2015 2024)) = [Call_Initialize]"
proof -
  have r: "Initialize_raises session_refused 0" "\<not> Authenticate_raises session_refused"
    "Initialize_raises session_refused 1"
    by (simp_all add: session_refused_def)
  have a: "Initialize_raises session_absent 0" "\<not> Authenticate_raises session_absent"
    "\<not> Initialize_raises session_absent 1"
    by (simp_all add: session_absent_def)
  have f: "Initialize_raises authentication_fails 0" "Authenticate_raises authentication_fails"
    by (simp_all add: authentication_fails_def)
  have c: "\<not> Initialize_raises session_cached 0"
    by (simp add: session_cached_def)
  from r a f c initialize_fallback[of session_refused 2015 2024]
    initialize_fallback[of session_absent 2015 2024]
    initialize_fallback[of authentication_fails 2015 2024]
    initialize_fallback[of session_cached 2015 2024]
  show ?thesis by (simp add: session_calls_export_years)
qed

text \<open>The retry does not follow every failed first attempt: where the re-authentication
  raises, the first initialisation has failed, the script has called
  \<^verbatim>\<open>ee.Authenticate()\<close>, and the run ends there; initialisation is not retried.\<close>

theorem initialize_fallback_counterexample:
  "Initialize_raises authentication_fails 0
   \<and> script authentication_fails 2015 2024 =
       (Inl EEException,
        [Print ''--- Script Start: Exporting yearly AOD data with verified logic ---'',
         Call_Initialize, Call_Authenticate])
   \<and> session_calls (snd (script authentication_fails 2015 2024))
       = [Call_Initialize, Call_Authenticate]
   \<and> count_list (snd (script authentication_fails 2015 2024)) Call_Initialize = 1"
  by (simp add: script_cases authentication_fails_def)

section \<open>The date window\<close>

text \<open>
  C2. The window of a year is meant to be the whole year, first to last day. The script
  gives \<^verbatim>\<open>filterDate\<close> the strings \<^verbatim>\<open>Y-01-01\<close> and \<^verbatim>\<open>Y-12-31\<close>, and the end of
  \<^verbatim>\<open>filterDate\<close> is exclusive. Evaluated at the year 2015: the task's expression filters
  by \<^verbatim>\<open>2015-01-01\<close> and \<^verbatim>\<open>2015-12-31\<close>; the first instant of January 1 and the last
  millisecond of December 30 are kept; midnight and noon of December 31 are not kept; no
  instant of 2016 or of 2014 is kept. December 31 is outside the window.
\<close>

theorem december_31_outside_window:
  "Do_filterDate ''2015-01-01'' ''2015-12-31'' \<in> set (pipeline (image (toDrive usa 2015)))
   \<and> start_date 2015 = ''2015-01-01'' \<and> end_date 2015 = ''2015-12-31''
   \<and> filterDate_keeps (start_date 2015) (end_date 2015) (2015, 1, 1, 0) = Some True
   \<and> filterDate_keeps (start_date 2015) (end_date 2015) (2015, 12, 30, 86399999) = Some True
   \<and> filterDate_keeps (start_date 2015) (end_date 2015) (2015, 12, 31, 0) = Some False
   \<and> filterDate_keeps (start_date 2015) (end_date 2015) (2015, 12, 31, 43200000) = Some False
   \<and> filterDate_keeps (start_date 2015) (end_date 2015) (2016, 1, 1, 0) = Some False
   \<and> filterDate_keeps (start_date 2015) (end_date 2015) (2014, 12, 31, 86399999) = Some False"
proof -
  have s: "start_date 2015 = ''2015-01-01''" "end_date 2015 = ''2015-12-31''"
    by (simp_all add: start_date_def end_date_def str_int_2015)
  have p: "parse_date ''2015-01-01'' = Some (2015, 1, 1, 0)"
    "parse_date ''2015-12-31'' = Some (2015, 12, 31, 0)"
    by (simp_all add: parse_date_def digit_value_def)
  show ?thesis
    by (simp add: pipeline_toDrive s filterDate_keeps_def p)
qed

end
